theory Spec2Isabelle
  imports Main "HOL-Library.AList"
begin

section \<open>Python values read from JSON\<close>

text \<open>
  \<^verbatim>\<open>build_update_config.py\<close> works on what \<^verbatim>\<open>json.loads\<close> returns: \<^verbatim>\<open>None\<close>,
  \<^verbatim>\<open>bool\<close>, \<^verbatim>\<open>int\<close>, \<^verbatim>\<open>float\<close>, \<^verbatim>\<open>str\<close>, \<^verbatim>\<open>list\<close> and \<^verbatim>\<open>dict\<close> with
  \<^verbatim>\<open>str\<close> keys.

  \<^item> A \<^verbatim>\<open>str\<close> is the list of its code points; a \<^typ>\<open>char\<close> is a code point below
    256, so the model covers the strings of that range.
  \<^item> A \<^verbatim>\<open>dict\<close> keeps insertion order: it is an association list, read with
    \<^const>\<open>map_of\<close>, written with \<^const>\<open>AList.update\<close> (an existing key keeps its
    place, a new one goes last, as \<^verbatim>\<open>d[k] = v\<close> does) and shrunk with
    \<^const>\<open>AList.delete\<close> (\<^verbatim>\<open>d.pop(k, None)\<close>). A parsed object has each key
    once; no theorem below needs that.
  \<^item> The program never computes with a \<^verbatim>\<open>float\<close>: it tests its type, passes it
    on, and reads it through \<^verbatim>\<open>str\<close> and \<^verbatim>\<open>bool\<close>. A float is therefore
    carried as the text \<^verbatim>\<open>repr\<close> gives for it (\<^verbatim>\<open>1.5\<close>, \<^verbatim>\<open>-0.0\<close>,
    \<^verbatim>\<open>1e-05\<close>, \<^verbatim>\<open>nan\<close>).
\<close>

datatype json =
    JNull
  | JBool bool
  | JInt int
  | JFloat string
  | JStr string
  | JList "json list"
  | JObj "(string \<times> json) list"

type_synonym dict = "(string \<times> json) list"

subsection \<open>\<^verbatim>\<open>str\<close> methods\<close>

text \<open>
  \<^verbatim>\<open>str.isspace\<close>, \<^verbatim>\<open>str.isdigit\<close> and \<^verbatim>\<open>str.lower\<close> on the code points below
  256: white space is U+0009..U+000D, U+001C..U+0020, U+0085 and U+00A0; the digits are
  U+0030..U+0039 and the superscripts U+00B2, U+00B3, U+00B9; the upper-case letters
  are U+0041..U+005A and U+00C0..U+00DE without U+00D7.
\<close>

definition code_point :: "char \<Rightarrow> nat" where
  "code_point c = of_char c"

definition isspace_char :: "char \<Rightarrow> bool" where
  "isspace_char c =
     (let n = code_point c
      in (9 \<le> n \<and> n \<le> 13) \<or> (28 \<le> n \<and> n \<le> 32) \<or> n = 133 \<or> n = 160)"

definition isdigit_char :: "char \<Rightarrow> bool" where
  "isdigit_char c =
     (let n = code_point c
      in (48 \<le> n \<and> n \<le> 57) \<or> n = 178 \<or> n = 179 \<or> n = 185)"

definition lower_char :: "char \<Rightarrow> char" where
  "lower_char c =
     (let n = code_point c
      in if (65 \<le> n \<and> n \<le> 90) \<or> (192 \<le> n \<and> n \<le> 222 \<and> n \<noteq> 215)
         then char_of (n + 32) else c)"

text \<open>\<^verbatim>\<open>s.strip()\<close>: white space removed at both ends.\<close>

definition strip :: "string \<Rightarrow> string" where
  "strip s = rev (dropWhile isspace_char (rev (dropWhile isspace_char s)))"

text \<open>\<^verbatim>\<open>s.isdigit()\<close>: at least one character, and every character a digit.\<close>

definition isdigit :: "string \<Rightarrow> bool" where
  "isdigit s = (s \<noteq> [] \<and> list_all isdigit_char s)"

text \<open>\<^verbatim>\<open>s.lower()\<close>.\<close>

definition lower :: "string \<Rightarrow> string" where
  "lower s = map lower_char s"

subsection \<open>\<^verbatim>\<open>str(x)\<close>, \<^verbatim>\<open>repr(x)\<close> and \<^verbatim>\<open>bool(x)\<close>\<close>

definition digit_char :: "nat \<Rightarrow> char" where
  "digit_char d = char_of (48 + d)"

fun str_nat :: "nat \<Rightarrow> string" where
  "str_nat n = (if n < 10 then [digit_char n] else str_nat (n div 10) @ [digit_char (n mod 10)])"

declare str_nat.simps [simp del]

text \<open>\<^verbatim>\<open>str(i)\<close> for an \<^verbatim>\<open>int\<close>: decimal, with a minus sign when negative.\<close>

definition str_int :: "int \<Rightarrow> string" where
  "str_int i = (if i < 0 then CHR ''-'' # str_nat (nat (- i)) else str_nat (nat i))"

definition hex_char :: "nat \<Rightarrow> char" where
  "hex_char d = (if d < 10 then char_of (48 + d) else char_of (87 + d))"

text \<open>
  \<^verbatim>\<open>repr\<close> of a \<^verbatim>\<open>str\<close>: single quotes unless the text has a single quote and no
  double quote; the quote and the backslash escaped; tab, newline and return by letter;
  what is not printable (below U+0020, U+007F..U+00A0, U+00AD) as \<^verbatim>\<open>\xhh\<close>.
\<close>

definition repr_char :: "char \<Rightarrow> char \<Rightarrow> string" where
  "repr_char q c =
     (let n = code_point c
      in if c = q \<or> c = CHR 0x5C then [CHR 0x5C, c]
         else if n = 9 then [CHR 0x5C, CHR ''t'']
         else if n = 10 then [CHR 0x5C, CHR ''n'']
         else if n = 13 then [CHR 0x5C, CHR ''r'']
         else if n < 32 \<or> (127 \<le> n \<and> n \<le> 160) \<or> n = 173
           then [CHR 0x5C, CHR ''x'', hex_char (n div 16), hex_char (n mod 16)]
         else [c])"

definition repr_str :: "string \<Rightarrow> string" where
  "repr_str s =
     (let q = (if CHR 0x27 \<in> set s \<and> CHR 0x22 \<notin> set s then CHR 0x22 else CHR 0x27)
      in [q] @ concat (map (repr_char q) s) @ [q])"

text \<open>\<^verbatim>\<open>', '.join(parts)\<close>.\<close>

fun join_comma :: "string list \<Rightarrow> string" where
  "join_comma [] = []"
| "join_comma [p] = p"
| "join_comma (p # ps) = p @ '', '' @ join_comma ps"

fun repr :: "json \<Rightarrow> string" where
  "repr JNull = ''None''"
| "repr (JBool b) = (if b then ''True'' else ''False'')"
| "repr (JInt i) = str_int i"
| "repr (JFloat r) = r"
| "repr (JStr s) = repr_str s"
| "repr (JList xs) = ''['' @ join_comma (map repr xs) @ '']''"
| "repr (JObj kvs) =
     ''{'' @ join_comma (map (\<lambda>kv. repr_str (fst kv) @ '': '' @ repr (snd kv)) kvs) @ ''}''"

text \<open>\<^verbatim>\<open>str(x)\<close>: the text itself for a \<^verbatim>\<open>str\<close>, \<^verbatim>\<open>repr(x)\<close> for the rest.\<close>

definition str :: "json \<Rightarrow> string" where
  "str v = (case v of JStr s \<Rightarrow> s | _ \<Rightarrow> repr v)"

text \<open>\<^verbatim>\<open>bool(x)\<close>: Python's truth value.\<close>

definition truthy :: "json \<Rightarrow> bool" where
  "truthy v =
     (case v of
        JNull \<Rightarrow> False
      | JBool b \<Rightarrow> b
      | JInt i \<Rightarrow> i \<noteq> 0
      | JFloat r \<Rightarrow> r \<noteq> ''0.0'' \<and> r \<noteq> ''-0.0''
      | JStr s \<Rightarrow> s \<noteq> []
      | JList xs \<Rightarrow> xs \<noteq> []
      | JObj kvs \<Rightarrow> kvs \<noteq> [])"

text \<open>\<^verbatim>\<open>d.get(k, default)\<close>; \<^verbatim>\<open>d.get(k)\<close> is \<^verbatim>\<open>d.get(k, None)\<close>.\<close>

definition get_default :: "dict \<Rightarrow> string \<Rightarrow> json \<Rightarrow> json" where
  "get_default d k dflt = (case map_of d k of None \<Rightarrow> dflt | Some v \<Rightarrow> v)"

section \<open>Errors\<close>

text \<open>
  \<^verbatim>\<open>ConfigError\<close> is the program's one exception class; each constructor of
  \<open>config_error\<close> is one of its \<^verbatim>\<open>raise\<close> sites, with what its message names.
  \<^verbatim>\<open>UnicodeDecodeError\<close> (from \<^verbatim>\<open>read_text\<close>) and \<^verbatim>\<open>KeyError\<close> (from a
  subscript) are not caught by the program and leave it as they are.
\<close>

datatype config_error =
    FailedReading string
  | InvalidJson string
  | ObjectRequired string
  | ArrayRequired string
  | InvalidId string json
  | MissingAnnouncementFile string
  | IdMismatch string string string
  | ManifestNotFound
  | IdsNotNonEmptyArray
  | IdsDuplicates
  | LatestNotInIds string
  | DonorsFileNotFound string

datatype error =
    ConfigError config_error
  | UnicodeDecodeError string
  | KeyError string

section \<open>Identifiers\<close>

text \<open>
  \<^verbatim>\<open>_normalize_id\<close> (lines 60-67). \<^verbatim>\<open>isinstance(value, int)\<close> holds for a
  \<^verbatim>\<open>bool\<close> as well, \<^verbatim>\<open>bool\<close> being a subclass of \<^verbatim>\<open>int\<close>, and \<^verbatim>\<open>str(True)\<close>
  is \<^verbatim>\<open>True\<close>.
\<close>

definition normalize_id :: "json \<Rightarrow> string \<Rightarrow> error + string" where
  "normalize_id v loc =
     (case v of
        JInt i \<Rightarrow> Inr (str_int i)
      | JBool b \<Rightarrow> Inr (str (JBool b))
      | JStr s \<Rightarrow>
          (let text = strip s
           in if isdigit text then Inr text else Inl (ConfigError (InvalidId loc v)))
      | _ \<Rightarrow> Inl (ConfigError (InvalidId loc v)))"

section \<open>Files\<close>

text \<open>
  The program reads files below its root directory. A path is kept as the text joined
  to the root (\<^verbatim>\<open>root / text\<close>); the file system maps it to nothing when
  \<^verbatim>\<open>path.exists()\<close> is false, and otherwise to what reading it gives:
  \<^verbatim>\<open>read_text\<close> raises \<^verbatim>\<open>OSError\<close> (a directory, no permission), the bytes are
  not UTF-8, \<^verbatim>\<open>json.loads\<close> raises \<^verbatim>\<open>JSONDecodeError\<close>, or the parsed value.
\<close>

datatype file_state = Unreadable | Undecodable | Malformed | Content json

type_synonym fs = "string \<Rightarrow> file_state option"

text \<open>The two \<^verbatim>\<open>try\<close> blocks shared by \<^verbatim>\<open>_read_json\<close> and \<^verbatim>\<open>_read_json_list\<close>.\<close>

fun read_text_loads :: "string \<Rightarrow> file_state option \<Rightarrow> error + json" where
  "read_text_loads path None = Inl (ConfigError (FailedReading path))"
| "read_text_loads path (Some Unreadable) = Inl (ConfigError (FailedReading path))"
| "read_text_loads path (Some Undecodable) = Inl (UnicodeDecodeError path)"
| "read_text_loads path (Some Malformed) = Inl (ConfigError (InvalidJson path))"
| "read_text_loads path (Some (Content data)) = Inr data"

text \<open>\<^verbatim>\<open>_read_json\<close> (lines 32-43).\<close>

definition read_json :: "fs \<Rightarrow> string \<Rightarrow> error + dict" where
  "read_json fs path =
     (case read_text_loads path (fs path) of
        Inl e \<Rightarrow> Inl e
      | Inr data \<Rightarrow>
          (case data of
             JObj d \<Rightarrow> Inr d
           | _ \<Rightarrow> Inl (ConfigError (ObjectRequired path))))"

text \<open>\<^verbatim>\<open>_read_json_list\<close> (lines 46-57).\<close>

definition read_json_list :: "fs \<Rightarrow> string \<Rightarrow> error + json list" where
  "read_json_list fs path =
     (case read_text_loads path (fs path) of
        Inl e \<Rightarrow> Inl e
      | Inr data \<Rightarrow>
          (case data of
             JList xs \<Rightarrow> Inr xs
           | _ \<Rightarrow> Inl (ConfigError (ArrayRequired path))))"

section \<open>Loading announcements\<close>

definition announcement_path :: "string \<Rightarrow> string" where
  "announcement_path ann_id = ''announcements/'' @ ann_id @ ''.json''"

text \<open>
  \<^verbatim>\<open>_load_announcements\<close> (lines 70-87): the \<^verbatim>\<open>for\<close> loop over \<^verbatim>\<open>ids\<close>, the
  dictionary \<^verbatim>\<open>announcements\<close> threaded through it.
\<close>

fun load_announcements_loop ::
  "fs \<Rightarrow> string list \<Rightarrow> (string \<times> dict) list \<Rightarrow> error + (string \<times> dict) list" where
  "load_announcements_loop fs [] announcements = Inr announcements"
| "load_announcements_loop fs (ann_id # ids) announcements =
     (let path = announcement_path ann_id
      in if fs path = None then Inl (ConfigError (MissingAnnouncementFile path))
         else
           (case read_json fs path of
              Inl e \<Rightarrow> Inl e
            | Inr data \<Rightarrow>
                (case normalize_id (get_default data ''id'' JNull) path of
                   Inl e \<Rightarrow> Inl e
                 | Inr file_id \<Rightarrow>
                     if file_id \<noteq> ann_id
                     then Inl (ConfigError (IdMismatch path ann_id file_id))
                     else load_announcements_loop fs ids
                            (AList.update ann_id data announcements))))"

definition load_announcements :: "fs \<Rightarrow> string list \<Rightarrow> error + (string \<times> dict) list" where
  "load_announcements fs ids = load_announcements_loop fs ids []"

section \<open>Release notes\<close>

text \<open>\<^verbatim>\<open>[str(x).strip() for x in value if str(x).strip()]\<close> (lines 114 and 123).\<close>

definition stripped_nonempty :: "json list \<Rightarrow> json list" where
  "stripped_nonempty xs =
     map (\<lambda>x. JStr (strip (str x))) (filter (\<lambda>x. strip (str x) \<noteq> []) xs)"

text \<open>
  The loop over \<^verbatim>\<open>contents.items()\<close> (lines 105-118). The keys of a parsed JSON
  object are always \<^verbatim>\<open>str\<close>, so the \<^verbatim>\<open>continue\<close> of line 107 is never taken.
\<close>

fun localize :: "(string \<times> json) list \<Rightarrow> dict \<Rightarrow> dict" where
  "localize [] localized = localized"
| "localize ((key, val) # rest) localized =
     (let lang = lower (strip key)
      in if lang = [] then localize rest localized
         else
           (let values =
                  (case val of
                     JStr s \<Rightarrow> (if strip s \<noteq> [] then [JStr (strip s)] else [])
                   | JList xs \<Rightarrow> stripped_nonempty xs
                   | _ \<Rightarrow> [])
            in if values \<noteq> []
               then localize rest (AList.update lang (JList values) localized)
               else localize rest localized))"

text \<open>The \<^verbatim>\<open>if\<close>/\<^verbatim>\<open>elif\<close> chain of lines 103-125.\<close>

definition normalize_contents :: "json \<Rightarrow> json" where
  "normalize_contents contents =
     (case contents of
        JObj d \<Rightarrow> JObj (localize d [])
      | JStr s \<Rightarrow> JList (if strip s \<noteq> [] then [JStr (strip s)] else [])
      | JList xs \<Rightarrow> JList (stripped_nonempty xs)
      | _ \<Rightarrow> JList [])"

text \<open>The loop over \<^verbatim>\<open>items\<close> (lines 97-133).\<close>

fun normalize_items :: "json list \<Rightarrow> json list \<Rightarrow> json list" where
  "normalize_items [] normalized_items = normalized_items"
| "normalize_items (item # rest) normalized_items =
     (case item of
        JObj d \<Rightarrow>
          (let category = strip (str (get_default d ''category'' (JStr '''')));
               normalized_contents = normalize_contents (get_default d ''contents'' JNull)
           in if category = [] \<and> \<not> truthy normalized_contents
              then normalize_items rest normalized_items
              else normalize_items rest
                     (normalized_items @
                        [JObj [(''category'', JStr category),
                               (''contents'', normalized_contents)]]))
      | _ \<Rightarrow> normalize_items rest normalized_items)"

text \<open>\<^verbatim>\<open>_build_release_note\<close> (lines 90-140).\<close>

definition build_release_note :: "dict \<Rightarrow> dict option" where
  "build_release_note entry =
     (let version = strip (str (get_default entry ''version'' (JStr '''')));
          date_label = strip (str (get_default entry ''date'' (JStr '''')));
          items = (case get_default entry ''items'' JNull of JList xs \<Rightarrow> xs | _ \<Rightarrow> []);
          normalized_items = normalize_items items []
      in if version = [] \<and> normalized_items = [] then None
         else Some [(''version'', JStr version),
                    (''date'', JStr date_label),
                    (''items'', JList normalized_items)])"

section \<open>Overrides\<close>

text \<open>The keyword arguments of \<^verbatim>\<open>_apply_overrides\<close>, all of them \<^verbatim>\<open>str\<close>.\<close>

record overrides =
  tag_version :: string
  android_url :: string
  ios_url :: string
  windows_url :: string
  android_version :: string
  ios_version :: string
  windows_version :: string

text \<open>
  \<^verbatim>\<open>get_platform\<close> (lines 158-162) returns the platform's own dictionary, and what
  \<^verbatim>\<open>_apply_overrides\<close> writes into it is seen through \<^verbatim>\<open>version_info\<close>. The
  model threads \<^verbatim>\<open>version_info\<close> and writes through the platform's name. The
  platform dictionaries come from \<^verbatim>\<open>json.loads\<close> and \<^verbatim>\<open>deepcopy\<close>, so no two
  names share one object.
\<close>

definition get_platform :: "dict \<Rightarrow> string \<Rightarrow> dict option" where
  "get_platform version_info name =
     (case map_of version_info name of
        Some (JObj d) \<Rightarrow> Some d
      | _ \<Rightarrow> None)"

text \<open>\<^verbatim>\<open>target[key] = text\<close>, for the \<^verbatim>\<open>target\<close> that \<^verbatim>\<open>get_platform(name)\<close> gave.\<close>

definition set_item :: "dict \<Rightarrow> string \<Rightarrow> string \<Rightarrow> string \<Rightarrow> dict" where
  "set_item version_info name key text =
     (case get_platform version_info name of
        None \<Rightarrow> version_info
      | Some target \<Rightarrow>
          AList.update name (JObj (AList.update key (JStr text) target)) version_info)"

text \<open>\<^verbatim>\<open>set_nonempty\<close> (lines 164-169).\<close>

definition set_nonempty :: "dict \<Rightarrow> string \<Rightarrow> string \<Rightarrow> string \<Rightarrow> dict" where
  "set_nonempty version_info name key val =
     (case get_platform version_info name of
        None \<Rightarrow> version_info
      | Some target \<Rightarrow>
          (let text = strip val
           in if text \<noteq> [] then set_item version_info name key text else version_info))"

text \<open>One \<^verbatim>\<open>if\<close> of lines 185-190.\<close>

definition set_tag :: "dict \<Rightarrow> string \<Rightarrow> string \<Rightarrow> string \<Rightarrow> string \<Rightarrow> dict" where
  "set_tag version_info name url version tag_text =
     (if get_platform version_info name \<noteq> None \<and> strip url \<noteq> [] \<and> \<not> strip version \<noteq> []
      then set_item version_info name ''latest_version'' tag_text
      else version_info)"

text \<open>
  \<^verbatim>\<open>_apply_overrides\<close> (lines 143-191). It returns nothing and changes \<^verbatim>\<open>merged\<close>
  in place; the model returns \<^verbatim>\<open>merged\<close> as it is afterwards.
\<close>

definition apply_overrides :: "dict \<Rightarrow> overrides \<Rightarrow> dict" where
  "apply_overrides merged ov =
     (case map_of merged ''version_info'' of
        Some (JObj version_info) \<Rightarrow>
          (let v1 = set_nonempty version_info ''android'' ''url'' (android_url ov);
               v2 = set_nonempty v1 ''ios'' ''url'' (ios_url ov);
               v3 = set_nonempty v2 ''windows'' ''url'' (windows_url ov);
               v4 = set_nonempty v3 ''android'' ''latest_version'' (android_version ov);
               v5 = set_nonempty v4 ''ios'' ''latest_version'' (ios_version ov);
               v6 = set_nonempty v5 ''windows'' ''latest_version'' (windows_version ov);
               tag_text = strip (tag_version ov);
               v9 = (if tag_text \<noteq> []
                     then
                       (let v7 = set_tag v6 ''android'' (android_url ov) (android_version ov)
                                   tag_text;
                            v8 = set_tag v7 ''windows'' (windows_url ov) (windows_version ov)
                                   tag_text
                        in set_tag v8 ''ios'' (ios_url ov) (ios_version ov) tag_text)
                     else v6)
           in AList.update ''version_info'' (JObj v9) merged)
      | _ \<Rightarrow> merged)"

section \<open>Compiling the configuration\<close>

text \<open>Lines 199-205: the shape of \<^verbatim>\<open>announcement_ids\<close> and the list comprehension.\<close>

fun normalize_ids :: "json list \<Rightarrow> error + string list" where
  "normalize_ids [] = Inr []"
| "normalize_ids (v # vs) =
     (case normalize_id v ''manifest.announcement_ids'' of
        Inl e \<Rightarrow> Inl e
      | Inr i \<Rightarrow>
          (case normalize_ids vs of
             Inl e \<Rightarrow> Inl e
           | Inr is \<Rightarrow> Inr (i # is)))"

text \<open>
  Lines 199-207. \<^verbatim>\<open>len(set(ids)) != len(ids)\<close> compares the number of different
  entries with the number of entries.
\<close>

definition check_announcement_ids :: "dict \<Rightarrow> error + string list" where
  "check_announcement_ids manifest =
     (case get_default manifest ''announcement_ids'' JNull of
        JList announcement_ids_raw \<Rightarrow>
          if announcement_ids_raw = [] then Inl (ConfigError IdsNotNonEmptyArray)
          else
            (case normalize_ids announcement_ids_raw of
               Inl e \<Rightarrow> Inl e
             | Inr announcement_ids \<Rightarrow>
                 if length (remdups announcement_ids) \<noteq> length announcement_ids
                 then Inl (ConfigError IdsDuplicates)
                 else Inr announcement_ids)
      | _ \<Rightarrow> Inl (ConfigError IdsNotNonEmptyArray))"

text \<open>Lines 209-214.\<close>

definition check_latest_announcement_id :: "dict \<Rightarrow> string list \<Rightarrow> error + string" where
  "check_latest_announcement_id manifest announcement_ids =
     (case normalize_id (get_default manifest ''latest_announcement_id'' JNull)
             ''manifest.latest_announcement_id'' of
        Inl e \<Rightarrow> Inl e
      | Inr latest_announcement_id \<Rightarrow>
          if latest_announcement_id \<notin> set announcement_ids
          then Inl (ConfigError (LatestNotInIds latest_announcement_id))
          else Inr latest_announcement_id)"

text \<open>Line 218.\<close>

definition donors_file_of :: "dict \<Rightarrow> string" where
  "donors_file_of manifest = strip (str (get_default manifest ''donors_file'' (JStr ''donors.json'')))"

text \<open>Lines 218-225.\<close>

definition load_donors :: "fs \<Rightarrow> dict \<Rightarrow> error + json list" where
  "load_donors fs manifest =
     (let donors_file = donors_file_of manifest
      in if donors_file \<noteq> []
         then
           (if fs donors_file \<noteq> None then read_json_list fs donors_file
            else if donors_file \<noteq> ''donors.json''
              then Inl (ConfigError (DonorsFileNotFound donors_file))
              else Inr [])
         else Inr [])"

text \<open>
  Lines 228-232. A subscript on a missing key raises \<^verbatim>\<open>KeyError\<close>; here and in
  line 227 the key has been loaded before.
\<close>

fun release_notes_loop ::
  "(string \<times> dict) list \<Rightarrow> string list \<Rightarrow> json list \<Rightarrow> error + json list" where
  "release_notes_loop announcements [] release_notes = Inr release_notes"
| "release_notes_loop announcements (ann_id # ids) release_notes =
     (case map_of announcements ann_id of
        None \<Rightarrow> Inl (KeyError ann_id)
      | Some entry \<Rightarrow>
          (case build_release_note entry of
             None \<Rightarrow> release_notes_loop announcements ids release_notes
           | Some note \<Rightarrow>
               release_notes_loop announcements ids (release_notes @ [JObj note])))"

text \<open>Lines 234-238: the copy of the manifest without its internal keys.\<close>

definition strip_internal_keys :: "dict \<Rightarrow> dict" where
  "strip_internal_keys manifest =
     AList.delete ''announcement_tag_index''
       (AList.delete ''donors_file''
          (AList.delete ''latest_announcement_id''
             (AList.delete ''announcement_ids'' manifest)))"

text \<open>Lines 240-246.\<close>

definition announcement_of :: "string \<Rightarrow> dict \<Rightarrow> dict" where
  "announcement_of latest_announcement_id active =
     [(''id'', JStr latest_announcement_id),
      (''title'', JStr (strip (str (get_default active ''title'' (JStr ''''))))),
      (''show_when_up_to_date'',
         JBool (truthy (get_default active ''show_when_up_to_date'' (JBool False)))),
      (''contents'', get_default active ''contents'' (JObj [])),
      (''new_donor_ids'', get_default active ''new_donor_ids'' (JList []))]"

text \<open>Lines 234-248.\<close>

definition assemble :: "dict \<Rightarrow> dict \<Rightarrow> json list \<Rightarrow> json list \<Rightarrow> dict" where
  "assemble manifest announcement donors release_notes =
     AList.update ''release_notes'' (JList release_notes)
       (AList.update ''donors'' (JList donors)
          (AList.update ''announcement'' (JObj announcement)
             (strip_internal_keys manifest)))"

text \<open>Lines 250-255.\<close>

definition summary_of :: "string list \<Rightarrow> string \<Rightarrow> json list \<Rightarrow> json list \<Rightarrow> dict" where
  "summary_of announcement_ids latest_announcement_id release_notes donors =
     [(''announcement_ids'', JList (map JStr announcement_ids)),
      (''latest_announcement_id'', JStr latest_announcement_id),
      (''release_notes_count'', JInt (int (length release_notes))),
      (''donors_count'', JInt (int (length donors)))]"

text \<open>
  \<^verbatim>\<open>compile_update_config\<close> (lines 193-256), in the order of the source: the first
  failure ends the run.
\<close>

definition compile_update_config :: "fs \<Rightarrow> error + (dict \<times> dict)" where
  "compile_update_config fs =
     (if fs ''manifest.json'' = None then Inl (ConfigError ManifestNotFound)
      else
        (case read_json fs ''manifest.json'' of
           Inl e \<Rightarrow> Inl e
         | Inr manifest \<Rightarrow>
        (case check_announcement_ids manifest of
           Inl e \<Rightarrow> Inl e
         | Inr announcement_ids \<Rightarrow>
        (case check_latest_announcement_id manifest announcement_ids of
           Inl e \<Rightarrow> Inl e
         | Inr latest_announcement_id \<Rightarrow>
        (case load_announcements fs announcement_ids of
           Inl e \<Rightarrow> Inl e
         | Inr announcements \<Rightarrow>
        (case load_donors fs manifest of
           Inl e \<Rightarrow> Inl e
         | Inr donors \<Rightarrow>
        (case map_of announcements latest_announcement_id of
           None \<Rightarrow> Inl (KeyError latest_announcement_id)
         | Some active \<Rightarrow>
        (case release_notes_loop announcements announcement_ids [] of
           Inl e \<Rightarrow> Inl e
         | Inr release_notes \<Rightarrow>
             Inr (assemble manifest (announcement_of latest_announcement_id active)
                    donors release_notes,
                  summary_of announcement_ids latest_announcement_id
                    release_notes donors)))))))))"

section \<open>Example inputs\<close>

text \<open>The location text that \<^verbatim>\<open>compile_update_config\<close> passes for an entry of the id list.\<close>

definition ids_loc :: string where
  "ids_loc = ''manifest.announcement_ids''"

text \<open>
  What \<^verbatim>\<open>_load_announcements\<close> checks of one file before it stores it: the file of
  the id holds a JSON object whose own \<^verbatim>\<open>id\<close> normalizes to the id.
\<close>

definition well_loaded :: "fs \<Rightarrow> string \<Rightarrow> dict \<Rightarrow> bool" where
  "well_loaded fs ann_id data \<longleftrightarrow>
     fs (announcement_path ann_id) = Some (Content (JObj data)) \<and>
     normalize_id (get_default data ''id'' JNull) (announcement_path ann_id) = Inr ann_id"

text \<open>
  The scenario of the specification: ids 1 and 2, the latest is 2, the first
  announcement has a version and no items, the second a title.
\<close>

definition manifest_example :: dict where
  "manifest_example =
     [(''schema_version'', JInt 1),
      (''version_info'',
         JObj [(''android'', JObj [(''url'', JStr ''https://old''),
                                   (''latest_version'', JStr ''1.0'')])]),
      (''announcement_ids'', JList [JInt 1, JInt 2]),
      (''latest_announcement_id'', JInt 2)]"

definition announcement_1 :: dict where
  "announcement_1 = [(''id'', JInt 1), (''version'', JStr ''1.0''), (''items'', JList [])]"

definition announcement_2 :: dict where
  "announcement_2 =
     [(''id'', JInt 2), (''title'', JStr ''Hi''), (''show_when_up_to_date'', JBool True)]"

definition fs_example :: fs where
  "fs_example =
     map_of [(''manifest.json'', Content (JObj manifest_example)),
             (''announcements/1.json'', Content (JObj announcement_1)),
             (''announcements/2.json'', Content (JObj announcement_2))]"

text \<open>The same files, the second one renamed to \<^verbatim>\<open>1.json\<close> without its id changed.\<close>

definition fs_renamed :: fs where
  "fs_renamed = map_of [(''announcements/1.json'', Content (JObj announcement_2))]"

text \<open>A manifest that lists the id 1 twice, once as a number and once as text.\<close>

definition manifest_duplicate :: dict where
  "manifest_duplicate =
     [(''announcement_ids'', JList [JInt 1, JStr '' 1 '']),
      (''latest_announcement_id'', JInt 1)]"

definition fs_duplicate :: fs where
  "fs_duplicate =
     map_of [(''manifest.json'', Content (JObj manifest_duplicate)),
             (''announcements/1.json'', Content (JObj announcement_1))]"

text \<open>A manifest with an empty id list.\<close>

definition manifest_no_ids :: dict where
  "manifest_no_ids = [(''announcement_ids'', JList []), (''latest_announcement_id'', JInt 1)]"

definition fs_no_ids :: fs where
  "fs_no_ids = map_of [(''manifest.json'', Content (JObj manifest_no_ids))]"

text \<open>The location text for the manifest's latest id.\<close>

definition latest_loc :: string where
  "latest_loc = ''manifest.latest_announcement_id''"

text \<open>A manifest whose latest id, 3, is not in its list.\<close>

definition manifest_unlisted :: dict where
  "manifest_unlisted =
     [(''announcement_ids'', JList [JInt 1, JInt 2]), (''latest_announcement_id'', JStr ''3'')]"

definition fs_unlisted :: fs where
  "fs_unlisted =
     map_of [(''manifest.json'', Content (JObj manifest_unlisted)),
             (''announcements/1.json'', Content (JObj announcement_1)),
             (''announcements/2.json'', Content (JObj announcement_2))]"

text \<open>
  The example with a donors file of two entries under the default name, and the example
  with a \<^verbatim>\<open>donors_file\<close> that names a file which is not there.
\<close>

definition fs_donors :: fs where
  "fs_donors = fs_example(''donors.json'' \<mapsto> Content (JList [JStr ''ann'', JStr ''bob'']))"

definition manifest_custom :: dict where
  "manifest_custom = manifest_example @ [(''donors_file'', JStr ''custom.json'')]"

definition fs_custom :: fs where
  "fs_custom = fs_example(''manifest.json'' \<mapsto> Content (JObj manifest_custom))"

text \<open>
  The example with a blank \<^verbatim>\<open>donors_file\<close>. Joined to the root, the empty name is the
  root directory itself: in \<open>fs_blank_root\<close> it is there and cannot be read as a file;
  in \<open>fs_blank\<close> the empty name is held to name nothing.
\<close>

definition manifest_blank :: dict where
  "manifest_blank = manifest_example @ [(''donors_file'', JStr ''  '')]"

definition fs_blank :: fs where
  "fs_blank = fs_donors(''manifest.json'' \<mapsto> Content (JObj manifest_blank))"

definition fs_blank_root :: fs where
  "fs_blank_root = fs_blank('''' \<mapsto> Unreadable)"

section \<open>The words of the specification\<close>

text \<open>The keys that the merged document drops, and the keys that it gains.\<close>

definition internal_keys :: "string set" where
  "internal_keys =
     {''announcement_ids'', ''latest_announcement_id'', ''donors_file'',
      ''announcement_tag_index''}"

definition injected_keys :: "string set" where
  "injected_keys = {''announcement'', ''donors'', ''release_notes''}"

text \<open>
  An announcement as the release-note builder reads it: its trimmed version string and
  its list of items (no items when \<^verbatim>\<open>items\<close> is not a list).
\<close>

definition note_version :: "dict \<Rightarrow> string" where
  "note_version entry = strip (str (get_default entry ''version'' (JStr '''')))"

definition entry_items :: "dict \<Rightarrow> json list" where
  "entry_items entry = (case get_default entry ''items'' JNull of JList xs \<Rightarrow> xs | _ \<Rightarrow> [])"

text \<open>
  An item remains when it is an object and its trimmed category or its normalized
  contents are not empty; what remains of it is its normalized form.
\<close>

definition item_category :: "dict \<Rightarrow> string" where
  "item_category d = strip (str (get_default d ''category'' (JStr '''')))"

definition item_contents :: "dict \<Rightarrow> json" where
  "item_contents d = normalize_contents (get_default d ''contents'' JNull)"

definition item_remains :: "json \<Rightarrow> bool" where
  "item_remains item =
     (case item of
        JObj d \<Rightarrow> item_category d \<noteq> [] \<or> truthy (item_contents d)
      | _ \<Rightarrow> False)"

definition normalized_item :: "json \<Rightarrow> json" where
  "normalized_item item =
     (case item of
        JObj d \<Rightarrow> JObj [(''category'', JStr (item_category d)), (''contents'', item_contents d)]
      | _ \<Rightarrow> JNull)"



text \<open>The example with every internal key and a field of its own.\<close>

definition manifest_full :: dict where
  "manifest_full =
     [(''announcement_tag_index'', JObj [])] @ manifest_example @
     [(''donors_file'', JStr ''donors.json''), (''notice_enabled'', JBool False)]"

definition fs_full :: fs where
  "fs_full = fs_donors(''manifest.json'' \<mapsto> Content (JObj manifest_full))"

text \<open>
  The three platforms that \<^verbatim>\<open>_apply_overrides\<close> knows, the override arguments of a
  platform, and the platform's dictionary inside a merged document (none when
  \<^verbatim>\<open>version_info\<close> or the platform is missing or is not an object).
\<close>

definition platforms :: "string set" where
  "platforms = {''android'', ''ios'', ''windows''}"

definition url_override :: "overrides \<Rightarrow> string \<Rightarrow> string" where
  "url_override ov name =
     (if name = ''android'' then android_url ov
      else if name = ''ios'' then ios_url ov
      else windows_url ov)"

definition version_override :: "overrides \<Rightarrow> string \<Rightarrow> string" where
  "version_override ov name =
     (if name = ''android'' then android_version ov
      else if name = ''ios'' then ios_version ov
      else windows_version ov)"

definition platform_of :: "dict \<Rightarrow> string \<Rightarrow> dict option" where
  "platform_of merged name =
     (case map_of merged ''version_info'' of
        Some (JObj version_info) \<Rightarrow> get_platform version_info name
      | _ \<Rightarrow> None)"

text \<open>
  The overrides of the specification's example: an android URL and a tag version, and
  the same with an android version as well.
\<close>

definition overrides_url :: overrides where
  "overrides_url =
     \<lparr>tag_version = ''1.2.3'', android_url = ''https://x'', ios_url = '''',
      windows_url = '''', android_version = '''', ios_version = '''',
      windows_version = ''''\<rparr>"

definition overrides_url_version :: overrides where
  "overrides_url_version = overrides_url\<lparr>android_version := ''9.9.9''\<rparr>"

section \<open>Identifiers: what is accepted and what comes back\<close>

lemma isdigit_char_digit_char: "d < 10 \<Longrightarrow> isdigit_char (digit_char d)"
  by (simp add: isdigit_char_def digit_char_def code_point_def)

lemma str_nat_digits: "str_nat n \<noteq> [] \<and> list_all isdigit_char (str_nat n)"
proof (induction n rule: str_nat.induct)
  case (1 n)
  show ?case
  proof (cases "n < 10")
    case True
    then show ?thesis
      by (subst (1 2) str_nat.simps) (simp add: isdigit_char_digit_char)
  next
    case False
    with 1 show ?thesis
      by (subst (1 2) str_nat.simps) (simp add: isdigit_char_digit_char)
  qed
qed

lemma isdigit_str_nat: "isdigit (str_nat n)"
  using str_nat_digits [of n] by (simp add: isdigit_def)

lemma isdigit_str_int: "0 \<le> i \<Longrightarrow> isdigit (str_int i)"
  by (simp add: str_int_def isdigit_str_nat)

text \<open>
  What \<^verbatim>\<open>_normalize_id\<close> computes, branch by branch: the string branch returns the
  trimmed string when it satisfies \<^verbatim>\<open>isdigit\<close>, the \<^verbatim>\<open>int\<close> branch returns the
  decimal text, which is digit-only when the integer is not negative, and every value
  that no branch returns for raises the \<^verbatim>\<open>ConfigError\<close> naming the place and the
  value.
\<close>

lemma normalize_id_cases:
  "((\<exists>r. normalize_id v loc = Inr r) \<longleftrightarrow>
      (case v of JInt i \<Rightarrow> True | JBool b \<Rightarrow> True | JStr s \<Rightarrow> isdigit (strip s) | _ \<Rightarrow> False))
   \<and> ((\<forall>r. normalize_id v loc \<noteq> Inr r) \<longrightarrow>
          normalize_id v loc = Inl (ConfigError (InvalidId loc v)))
   \<and> (\<forall>s r. v = JStr s \<and> normalize_id v loc = Inr r \<longrightarrow> r = strip s \<and> isdigit r)
   \<and> (\<forall>i r. v = JInt i \<and> 0 \<le> i \<and> normalize_id v loc = Inr r \<longrightarrow>
          r = str_int i \<and> isdigit r)"
  by (cases v) (auto simp: normalize_id_def Let_def isdigit_str_int)

text \<open>
  C2 says that \<^verbatim>\<open>_normalize_id\<close> accepts integers and all-digit strings, rejects
  everything else, and returns digit-only strings only. The string branch (lines 63-66)
  does so: it tests \<^verbatim>\<open>isdigit\<close> and rejects the texts \<^verbatim>\<open>-5\<close> and \<^verbatim>\<open>True\<close>. The
  \<^verbatim>\<open>int\<close> branch (lines 61-62) returns \<^verbatim>\<open>str(value)\<close> without that test: the
  integer \<^verbatim>\<open>-5\<close> comes back as \<^verbatim>\<open>-5\<close>, and the boolean \<^verbatim>\<open>true\<close>, which
  \<^verbatim>\<open>isinstance\<close> takes for an \<^verbatim>\<open>int\<close>, comes back as \<^verbatim>\<open>True\<close>; neither result
  is a digit-only string.
\<close>

theorem normalize_id_int_branch_unchecked:
  "normalize_id (JInt (- 5)) ids_loc = Inr ''-5'' \<and> \<not> isdigit ''-5''
   \<and> normalize_id (JStr ''-5'') ids_loc = Inl (ConfigError (InvalidId ids_loc (JStr ''-5'')))
   \<and> normalize_id (JBool True) ids_loc = Inr ''True'' \<and> \<not> isdigit ''True''
   \<and> normalize_id (JStr ''True'') ids_loc
       = Inl (ConfigError (InvalidId ids_loc (JStr ''True'')))"
  by code_simp

section \<open>The stages of \<^verbatim>\<open>compile_update_config\<close>\<close>

lemma sum_cases: "(\<exists>e. x = Inl e) \<or> (\<exists>r. x = Inr r)"
  by (cases x) auto

lemma read_json_Inr: "read_json fs path = Inr d \<longleftrightarrow> fs path = Some (Content (JObj d))"
proof (cases "fs path")
  case None
  then show ?thesis by (simp add: read_json_def)
next
  case (Some f)
  then show ?thesis
    by (cases f) (auto simp: read_json_def split: json.splits)
qed

lemma compile_stages:
  assumes "fs ''manifest.json'' = Some (Content (JObj manifest))"
  shows "compile_update_config fs =
     (case check_announcement_ids manifest of
        Inl e \<Rightarrow> Inl e
      | Inr ids \<Rightarrow>
     (case check_latest_announcement_id manifest ids of
        Inl e \<Rightarrow> Inl e
      | Inr latest \<Rightarrow>
     (case load_announcements fs ids of
        Inl e \<Rightarrow> Inl e
      | Inr anns \<Rightarrow>
     (case load_donors fs manifest of
        Inl e \<Rightarrow> Inl e
      | Inr donors \<Rightarrow>
     (case map_of anns latest of
        None \<Rightarrow> Inl (KeyError latest)
      | Some active \<Rightarrow>
     (case release_notes_loop anns ids [] of
        Inl e \<Rightarrow> Inl e
      | Inr rn \<Rightarrow>
          Inr (assemble manifest (announcement_of latest active) donors rn,
               summary_of ids latest rn donors)))))))"
proof -
  have "read_json fs ''manifest.json'' = Inr manifest"
    using assms by (simp add: read_json_Inr)
  then show ?thesis
    using assms by (simp add: compile_update_config_def)
qed

lemma compile_Inr_manifest:
  assumes "compile_update_config fs = Inr r"
  shows "\<exists>manifest. fs ''manifest.json'' = Some (Content (JObj manifest))"
proof -
  from assms obtain manifest where "read_json fs ''manifest.json'' = Inr manifest"
    by (auto simp: compile_update_config_def split: if_splits sum.splits)
  then show ?thesis by (auto simp: read_json_Inr)
qed

lemma compile_InrD:
  assumes c: "compile_update_config fs = Inr (merged, summary)"
    and m: "fs ''manifest.json'' = Some (Content (JObj manifest))"
  shows "\<exists>ids latest anns donors active rn.
        check_announcement_ids manifest = Inr ids \<and>
        check_latest_announcement_id manifest ids = Inr latest \<and>
        load_announcements fs ids = Inr anns \<and>
        load_donors fs manifest = Inr donors \<and>
        map_of anns latest = Some active \<and>
        release_notes_loop anns ids [] = Inr rn \<and>
        merged = assemble manifest (announcement_of latest active) donors rn \<and>
        summary = summary_of ids latest rn donors"
  using c compile_stages [of fs manifest] m
  by (auto split: sum.splits option.splits)

lemma normalize_ids_Inr:
  "normalize_ids vs = Inr ids \<Longrightarrow>
     length ids = length vs \<and> (\<forall>i < length vs. normalize_id (vs ! i) ids_loc = Inr (ids ! i))"
proof (induction vs arbitrary: ids)
  case Nil
  then show ?case by simp
next
  case (Cons v vs)
  from Cons.prems obtain i js where v: "normalize_id v ids_loc = Inr i"
    and vs: "normalize_ids vs = Inr js" and ids: "ids = i # js"
    by (auto simp: ids_loc_def split: sum.splits)
  from Cons.IH [OF vs] v ids show ?case
    by (auto simp: nth_Cons split: nat.splits)
qed

lemma duplicates_length: "length (remdups xs) \<noteq> length xs \<longleftrightarrow> \<not> distinct xs"
  by (metis distinct_remdups distinct_remdups_id length_remdups_eq)

lemma check_ids_Inr:
  "check_announcement_ids manifest = Inr ids \<longleftrightarrow>
     (\<exists>raw. get_default manifest ''announcement_ids'' JNull = JList raw \<and> raw \<noteq> [] \<and>
            normalize_ids raw = Inr ids \<and> distinct ids)"
  by (auto simp: check_announcement_ids_def duplicates_length split: json.splits sum.splits)

section \<open>Loading announcements: the file's own id\<close>

lemma load_loop_dom:
  "load_announcements_loop fs ids acc = Inr anns \<Longrightarrow>
     dom (map_of anns) = dom (map_of acc) \<union> set ids"
proof (induction ids arbitrary: acc)
  case Nil
  then show ?case by simp
next
  case (Cons a ids)
  from Cons.prems obtain data where
    rest: "load_announcements_loop fs ids (AList.update a data acc) = Inr anns"
    by (auto simp: Let_def split: if_splits sum.splits)
  from Cons.IH [OF rest] show ?case
    by (auto simp: update_conv')
qed

lemma load_loop_well_loaded:
  "load_announcements_loop fs ids acc = Inr anns \<Longrightarrow>
     (\<And>k d. map_of acc k = Some d \<Longrightarrow> well_loaded fs k d) \<Longrightarrow>
     map_of anns k = Some d \<Longrightarrow> well_loaded fs k d"
proof (induction ids arbitrary: acc)
  case Nil
  then show ?case by simp
next
  case (Cons a ids)
  from Cons.prems(1) obtain data where
    data: "read_json fs (announcement_path a) = Inr data"
    and nid: "normalize_id (get_default data ''id'' JNull) (announcement_path a) = Inr a"
    and rest: "load_announcements_loop fs ids (AList.update a data acc) = Inr anns"
    by (auto simp: Let_def split: if_splits sum.splits)
  have wl: "well_loaded fs a data"
    using data nid by (simp add: well_loaded_def read_json_Inr)
  have "\<And>k d. map_of (AList.update a data acc) k = Some d \<Longrightarrow> well_loaded fs k d"
    using wl Cons.prems(2) by (auto simp: update_conv' split: if_splits)
  from Cons.IH [OF rest this Cons.prems(3)] show ?case .
qed

lemma load_announcements_Inr:
  assumes "load_announcements fs ids = Inr anns"
  shows "dom (map_of anns) = set ids"
    and "map_of anns k = Some d \<Longrightarrow> well_loaded fs k d"
proof -
  from assms have l: "load_announcements_loop fs ids [] = Inr anns"
    by (simp add: load_announcements_def)
  from load_loop_dom [OF l] show "dom (map_of anns) = set ids" by simp
  show "map_of anns k = Some d \<Longrightarrow> well_loaded fs k d"
    using load_loop_well_loaded [OF l] by simp
qed

lemma mismatch_fails_loading:
  assumes "ann_id \<in> set ids"
    and "fs (announcement_path ann_id) = Some (Content (JObj data))"
    and "normalize_id (get_default data ''id'' JNull) (announcement_path ann_id) = Inr file_id"
    and "file_id \<noteq> ann_id"
  shows "\<exists>e. load_announcements fs ids = Inl e"
proof (rule ccontr)
  assume "\<nexists>e. load_announcements fs ids = Inl e"
  then obtain anns where l: "load_announcements fs ids = Inr anns"
    using sum_cases [of "load_announcements fs ids"] by blast
  from load_announcements_Inr(1) [OF l] assms(1) obtain d where m: "map_of anns ann_id = Some d"
    by blast
  from load_announcements_Inr(2) [OF l m] have "well_loaded fs ann_id d" .
  with assms show False by (auto simp: well_loaded_def)
qed

text \<open>
  C6. When \<^verbatim>\<open>_load_announcements\<close> returns, every id of the list has an entry, which
  is the JSON object of the id's file, and the \<^verbatim>\<open>id\<close> field of that object normalizes
  to the list id. When the file of a listed id holds an object whose \<^verbatim>\<open>id\<close> field
  normalizes to something else, \<^verbatim>\<open>_load_announcements\<close> fails, and so does
  \<^verbatim>\<open>compile_update_config\<close> when the list is the manifest's.
\<close>

theorem load_announcements_ids_match:
  "(load_announcements fs ids = Inr anns \<longrightarrow>
      (\<forall>ann_id \<in> set ids. \<exists>data.
          map_of anns ann_id = Some data \<and>
          fs (announcement_path ann_id) = Some (Content (JObj data)) \<and>
          normalize_id (get_default data ''id'' JNull) (announcement_path ann_id) = Inr ann_id))
   \<and> (ann_id \<in> set ids \<and>
        fs (announcement_path ann_id) = Some (Content (JObj data)) \<and>
        normalize_id (get_default data ''id'' JNull) (announcement_path ann_id) = Inr file_id \<and>
        file_id \<noteq> ann_id \<longrightarrow>
      (\<exists>e. load_announcements fs ids = Inl e) \<and>
      (fs ''manifest.json'' = Some (Content (JObj manifest)) \<and>
       check_announcement_ids manifest = Inr ids \<longrightarrow>
       (\<exists>e. compile_update_config fs = Inl e)))"
proof (intro conjI impI ballI)
  fix a
  assume l: "load_announcements fs ids = Inr anns" and a: "a \<in> set ids"
  from load_announcements_Inr(1) [OF l] a obtain data where m: "map_of anns a = Some data"
    by blast
  from load_announcements_Inr(2) [OF l m] have "well_loaded fs a data" .
  with m show "\<exists>data. map_of anns a = Some data \<and>
          fs (announcement_path a) = Some (Content (JObj data)) \<and>
          normalize_id (get_default data ''id'' JNull) (announcement_path a) = Inr a"
    by (auto simp: well_loaded_def)
next
  assume h: "ann_id \<in> set ids \<and>
        fs (announcement_path ann_id) = Some (Content (JObj data)) \<and>
        normalize_id (get_default data ''id'' JNull) (announcement_path ann_id) = Inr file_id \<and>
        file_id \<noteq> ann_id"
  then show "\<exists>e. load_announcements fs ids = Inl e"
    using mismatch_fails_loading [of ann_id ids fs data file_id] by blast
next
  assume h: "ann_id \<in> set ids \<and>
        fs (announcement_path ann_id) = Some (Content (JObj data)) \<and>
        normalize_id (get_default data ''id'' JNull) (announcement_path ann_id) = Inr file_id \<and>
        file_id \<noteq> ann_id"
    and m: "fs ''manifest.json'' = Some (Content (JObj manifest)) \<and>
       check_announcement_ids manifest = Inr ids"
  from h obtain e where e: "load_announcements fs ids = Inl e"
    using mismatch_fails_loading [of ann_id ids fs data file_id] by blast
  show "\<exists>e. compile_update_config fs = Inl e"
  proof (rule ccontr)
    assume "\<nexists>e. compile_update_config fs = Inl e"
    then obtain merged summary where c: "compile_update_config fs = Inr (merged, summary)"
      using sum_cases [of "compile_update_config fs"] by (metis surj_pair)
    from compile_InrD [OF c] m e show False by fastforce
  qed
qed

theorem load_announcements_ids_match_witness:
  "load_announcements fs_example [''1'', ''2'']
     = Inr [(''1'', announcement_1), (''2'', announcement_2)]
   \<and> (\<exists>data. map_of [(''1'', announcement_1), (''2'', announcement_2)] ''2'' = Some data \<and>
          fs_example (announcement_path ''2'') = Some (Content (JObj data)) \<and>
          normalize_id (get_default data ''id'' JNull) (announcement_path ''2'') = Inr ''2'')
   \<and> (\<exists>e. load_announcements fs_renamed [''1''] = Inl e)"
proof -
  have l: "load_announcements fs_example [''1'', ''2'']
     = Inr [(''1'', announcement_1), (''2'', announcement_2)]"
    by code_simp
  have f: "fs_renamed (announcement_path ''1'') = Some (Content (JObj announcement_2))"
    by code_simp
  have n: "normalize_id (get_default announcement_2 ''id'' JNull) (announcement_path ''1'')
            = Inr ''2''"
    by code_simp
  from load_announcements_ids_match
         [of fs_example "[''1'', ''2'']" "[(''1'', announcement_1), (''2'', announcement_2)]"] l
  have 1: "\<exists>data. map_of [(''1'', announcement_1), (''2'', announcement_2)] ''2'' = Some data \<and>
          fs_example (announcement_path ''2'') = Some (Content (JObj data)) \<and>
          normalize_id (get_default data ''id'' JNull) (announcement_path ''2'') = Inr ''2''"
    by simp
  from load_announcements_ids_match
         [where fs = fs_renamed and ids = "[''1'']" and ann_id = "''1''"
            and data = announcement_2 and file_id = "''2''"] f n
  have 2: "\<exists>e. load_announcements fs_renamed [''1''] = Inl e"
    by simp
  from l 1 2 show ?thesis by blast
qed

section \<open>The id list: shape and duplicates\<close>

text \<open>
  C7. With the manifest read, \<^verbatim>\<open>compile_update_config\<close> fails with its
  "must be a non-empty array" error when \<^verbatim>\<open>announcement_ids\<close> is missing, is not a
  list, or is the empty list; it fails whenever two entries of the list normalize to
  the same string; and when every entry normalizes, the failure is the "contains
  duplicates" error.
\<close>

theorem duplicate_ids_rejected:
  assumes "fs ''manifest.json'' = Some (Content (JObj manifest))"
  shows "((\<forall>raw. get_default manifest ''announcement_ids'' JNull \<noteq> JList raw)
            \<or> get_default manifest ''announcement_ids'' JNull = JList [] \<longrightarrow>
          compile_update_config fs = Inl (ConfigError IdsNotNonEmptyArray))
       \<and> (get_default manifest ''announcement_ids'' JNull = JList raw \<and>
            i < j \<and> j < length raw \<and>
            normalize_id (raw ! i) ids_loc = Inr s \<and> normalize_id (raw ! j) ids_loc = Inr s \<longrightarrow>
          (\<exists>e. compile_update_config fs = Inl e))
       \<and> (get_default manifest ''announcement_ids'' JNull = JList raw \<and>
            normalize_ids raw = Inr ids \<and> \<not> distinct ids \<longrightarrow>
          compile_update_config fs = Inl (ConfigError IdsDuplicates))"
proof (intro conjI impI)
  assume "(\<forall>raw. get_default manifest ''announcement_ids'' JNull \<noteq> JList raw)
            \<or> get_default manifest ''announcement_ids'' JNull = JList []"
  then have "check_announcement_ids manifest = Inl (ConfigError IdsNotNonEmptyArray)"
    by (auto simp: check_announcement_ids_def split: json.splits)
  then show "compile_update_config fs = Inl (ConfigError IdsNotNonEmptyArray)"
    using compile_stages [of fs manifest] assms by simp
next
  assume h: "get_default manifest ''announcement_ids'' JNull = JList raw \<and>
            normalize_ids raw = Inr ids \<and> \<not> distinct ids"
  then have "raw \<noteq> []" by auto
  with h have "check_announcement_ids manifest = Inl (ConfigError IdsDuplicates)"
    by (simp add: check_announcement_ids_def duplicates_length)
  then show "compile_update_config fs = Inl (ConfigError IdsDuplicates)"
    using compile_stages [of fs manifest] assms by simp
next
  assume h: "get_default manifest ''announcement_ids'' JNull = JList raw \<and>
            i < j \<and> j < length raw \<and>
            normalize_id (raw ! i) ids_loc = Inr s \<and> normalize_id (raw ! j) ids_loc = Inr s"
  show "\<exists>e. compile_update_config fs = Inl e"
  proof (rule ccontr)
    assume "\<nexists>e. compile_update_config fs = Inl e"
    then obtain merged summary where c: "compile_update_config fs = Inr (merged, summary)"
      using sum_cases [of "compile_update_config fs"] by (metis surj_pair)
    from compile_InrD [OF c assms] obtain ids where
      "check_announcement_ids manifest = Inr ids" by blast
    with h have n: "normalize_ids raw = Inr ids" and d: "distinct ids"
      by (auto simp: check_ids_Inr)
    from normalize_ids_Inr [OF n] h have "length ids = length raw"
      and "ids ! i = s" and "ids ! j = s" by auto
    with d h show False
      by (metis distinct_conv_nth less_trans nat_neq_iff)
  qed
qed

theorem duplicate_ids_rejected_witness:
  "compile_update_config fs_duplicate = Inl (ConfigError IdsDuplicates)
   \<and> compile_update_config fs_no_ids = Inl (ConfigError IdsNotNonEmptyArray)"
proof -
  have m: "fs_duplicate ''manifest.json'' = Some (Content (JObj manifest_duplicate))"
    by code_simp
  have g: "get_default manifest_duplicate ''announcement_ids'' JNull
             = JList [JInt 1, JStr '' 1 '']"
    by code_simp
  have n: "normalize_ids [JInt 1, JStr '' 1 ''] = Inr [''1'', ''1'']"
    by code_simp
  have d: "\<not> distinct [''1'', ''1'' :: string]"
    by simp
  from duplicate_ids_rejected
         [where fs = fs_duplicate and manifest = manifest_duplicate
            and raw = "[JInt 1, JStr '' 1 '']" and ids = "[''1'', ''1'']", OF m] g n d
  have 1: "compile_update_config fs_duplicate = Inl (ConfigError IdsDuplicates)"
    by blast
  have m': "fs_no_ids ''manifest.json'' = Some (Content (JObj manifest_no_ids))"
    by code_simp
  have g': "get_default manifest_no_ids ''announcement_ids'' JNull = JList []"
    by code_simp
  from duplicate_ids_rejected [where fs = fs_no_ids and manifest = manifest_no_ids, OF m'] g'
  have 2: "compile_update_config fs_no_ids = Inl (ConfigError IdsNotNonEmptyArray)"
    by blast
  from 1 2 show ?thesis by simp
qed

section \<open>The latest id must be listed\<close>

lemma read_text_loads_not_latest:
  "read_text_loads path f \<noteq> Inl (ConfigError (LatestNotInIds l))"
  by (cases "(path, f)" rule: read_text_loads.cases) auto

lemma read_json_not_latest: "read_json fs path \<noteq> Inl (ConfigError (LatestNotInIds l))"
  using read_text_loads_not_latest [of path "fs path" l]
  by (auto simp: read_json_def split: sum.splits json.splits)

lemma read_json_list_not_latest: "read_json_list fs path \<noteq> Inl (ConfigError (LatestNotInIds l))"
  using read_text_loads_not_latest [of path "fs path" l]
  by (auto simp: read_json_list_def split: sum.splits json.splits)

lemma normalize_id_not_latest: "normalize_id v loc \<noteq> Inl (ConfigError (LatestNotInIds l))"
  by (auto simp: normalize_id_def Let_def split: json.splits)

lemma load_loop_not_latest:
  "load_announcements_loop fs ids acc \<noteq> Inl (ConfigError (LatestNotInIds l))"
proof (induction ids arbitrary: acc)
  case Nil
  then show ?case by simp
next
  case (Cons a ids)
  show ?case
    using Cons.IH read_json_not_latest [of fs "announcement_path a" l] normalize_id_not_latest
    by (auto simp: Let_def split: sum.splits)
qed

lemma load_donors_not_latest: "load_donors fs manifest \<noteq> Inl (ConfigError (LatestNotInIds l))"
  using read_json_list_not_latest [of fs "donors_file_of manifest" l]
  by (auto simp: load_donors_def Let_def)

lemma release_notes_loop_not_latest:
  "release_notes_loop anns ids acc \<noteq> Inl (ConfigError (LatestNotInIds l))"
  by (induction ids arbitrary: acc) (auto split: option.splits)

text \<open>
  C8. With the manifest read, its id list accepted and its \<^verbatim>\<open>latest_announcement_id\<close>
  normalized: when the normalized latest id is not in the normalized list,
  \<^verbatim>\<open>compile_update_config\<close> fails with the "is not in announcement_ids" error; the
  check of lines 209-214 is passed exactly when the id is in the list, and then no
  later stage raises that error.
\<close>

theorem latest_id_must_be_listed:
  assumes "fs ''manifest.json'' = Some (Content (JObj manifest))"
    and "check_announcement_ids manifest = Inr ids"
    and "normalize_id (get_default manifest ''latest_announcement_id'' JNull) latest_loc
           = Inr latest"
  shows "(latest \<notin> set ids \<longrightarrow>
            compile_update_config fs = Inl (ConfigError (LatestNotInIds latest)))
       \<and> ((\<exists>l. check_latest_announcement_id manifest ids = Inr l) \<longleftrightarrow> latest \<in> set ids)
       \<and> (latest \<in> set ids \<longrightarrow>
            check_latest_announcement_id manifest ids = Inr latest \<and>
            (\<forall>l. compile_update_config fs \<noteq> Inl (ConfigError (LatestNotInIds l))))"
proof (intro conjI impI allI)
  assume "latest \<notin> set ids"
  then have "check_latest_announcement_id manifest ids = Inl (ConfigError (LatestNotInIds latest))"
    using assms(3) by (simp add: check_latest_announcement_id_def latest_loc_def)
  then show "compile_update_config fs = Inl (ConfigError (LatestNotInIds latest))"
    using compile_stages [of fs manifest] assms(1,2) by simp
next
  show "(\<exists>l. check_latest_announcement_id manifest ids = Inr l) \<longleftrightarrow> latest \<in> set ids"
    using assms(3) by (auto simp: check_latest_announcement_id_def latest_loc_def)
next
  assume "latest \<in> set ids"
  then show "check_latest_announcement_id manifest ids = Inr latest"
    using assms(3) by (simp add: check_latest_announcement_id_def latest_loc_def)
next
  fix l
  assume "latest \<in> set ids"
  then have c: "check_latest_announcement_id manifest ids = Inr latest"
    using assms(3) by (simp add: check_latest_announcement_id_def latest_loc_def)
  show "compile_update_config fs \<noteq> Inl (ConfigError (LatestNotInIds l))"
    using compile_stages [of fs manifest] assms(1,2) c
      load_loop_not_latest [of fs ids "[]" l] load_donors_not_latest [of fs manifest l]
      release_notes_loop_not_latest [of _ ids "[]" l]
    by (auto simp: load_announcements_def split: sum.splits option.splits)
qed

theorem latest_id_must_be_listed_witness:
  "compile_update_config fs_unlisted = Inl (ConfigError (LatestNotInIds ''3''))
   \<and> check_latest_announcement_id manifest_example [''1'', ''2''] = Inr ''2''
   \<and> compile_update_config fs_example \<noteq> Inl (ConfigError (LatestNotInIds ''2''))"
proof -
  have m: "fs_unlisted ''manifest.json'' = Some (Content (JObj manifest_unlisted))"
    by code_simp
  have i: "check_announcement_ids manifest_unlisted = Inr [''1'', ''2'']"
    by code_simp
  have n: "normalize_id (get_default manifest_unlisted ''latest_announcement_id'' JNull) latest_loc
             = Inr ''3''"
    by code_simp
  from latest_id_must_be_listed
         [where fs = fs_unlisted and manifest = manifest_unlisted, OF m i n]
  have 1: "compile_update_config fs_unlisted = Inl (ConfigError (LatestNotInIds ''3''))"
    by simp
  have m': "fs_example ''manifest.json'' = Some (Content (JObj manifest_example))"
    by code_simp
  have i': "check_announcement_ids manifest_example = Inr [''1'', ''2'']"
    by code_simp
  have n': "normalize_id (get_default manifest_example ''latest_announcement_id'' JNull) latest_loc
             = Inr ''2''"
    by code_simp
  from latest_id_must_be_listed
         [where fs = fs_example and manifest = manifest_example, OF m' i' n']
  have 2: "check_latest_announcement_id manifest_example [''1'', ''2''] = Inr ''2'' \<and>
           compile_update_config fs_example \<noteq> Inl (ConfigError (LatestNotInIds ''2''))"
    by simp
  from 1 2 show ?thesis by simp
qed

section \<open>A run that passes every check returns\<close>

lemma release_notes_loop_eq:
  "set ids \<subseteq> dom (map_of anns) \<Longrightarrow>
     release_notes_loop anns ids acc =
       Inr (acc @ map JObj (List.map_filter (\<lambda>i. build_release_note (the (map_of anns i))) ids))"
proof (induction ids arbitrary: acc)
  case Nil
  then show ?case by (simp add: List.map_filter_simps)
next
  case (Cons a ids)
  from Cons.prems obtain entry where e: "map_of anns a = Some entry" by auto
  from Cons.prems have s: "set ids \<subseteq> dom (map_of anns)" by simp
  show ?case
    using e Cons.IH [OF s]
    by (cases "build_release_note entry") (simp_all add: List.map_filter_simps)
qed

lemma check_latest_Inr:
  "check_latest_announcement_id manifest ids = Inr latest \<longleftrightarrow>
     normalize_id (get_default manifest ''latest_announcement_id'' JNull) latest_loc = Inr latest
     \<and> latest \<in> set ids"
  by (auto simp: check_latest_announcement_id_def latest_loc_def split: sum.splits)

lemma compile_succeeds:
  assumes m: "fs ''manifest.json'' = Some (Content (JObj manifest))"
    and i: "check_announcement_ids manifest = Inr ids"
    and l: "check_latest_announcement_id manifest ids = Inr latest"
    and a: "load_announcements fs ids = Inr anns"
    and d: "load_donors fs manifest = Inr donors"
  shows "\<exists>active rn. map_of anns latest = Some active \<and>
           release_notes_loop anns ids [] = Inr rn \<and>
           compile_update_config fs =
             Inr (assemble manifest (announcement_of latest active) donors rn,
                  summary_of ids latest rn donors)"
proof -
  have dom: "dom (map_of anns) = set ids"
    using load_announcements_Inr(1) [OF a] .
  from l have "latest \<in> set ids" by (simp add: check_latest_Inr)
  with dom obtain active where act: "map_of anns latest = Some active" by blast
  from dom have "set ids \<subseteq> dom (map_of anns)" by simp
  from release_notes_loop_eq [OF this, of "[]"] obtain rn where
    rn: "release_notes_loop anns ids [] = Inr rn" by blast
  show ?thesis
    using compile_stages [of fs manifest] m i l a d act rn by simp
qed

section \<open>Donors\<close>

lemma assemble_donors: "map_of (assemble manifest a donors rn) ''donors'' = Some (JList donors)"
  by (simp add: assemble_def update_conv')

lemma assemble_announcement: "map_of (assemble manifest a donors rn) ''announcement'' = Some (JObj a)"
  by (simp add: assemble_def update_conv')


lemma compile_Inr_donors:
  assumes "compile_update_config fs = Inr (merged, summary)"
    and "fs ''manifest.json'' = Some (Content (JObj manifest))"
  shows "\<exists>donors. load_donors fs manifest = Inr donors \<and>
           map_of merged ''donors'' = Some (JList donors)"
  using compile_InrD [OF assms] assemble_donors by blast

lemma load_donors_failure_fails_compile:
  assumes m: "fs ''manifest.json'' = Some (Content (JObj manifest))"
    and d: "load_donors fs manifest = Inl e"
  shows "\<exists>e'. compile_update_config fs = Inl e'"
proof (rule ccontr)
  assume "\<nexists>e'. compile_update_config fs = Inl e'"
  then obtain merged summary where c: "compile_update_config fs = Inr (merged, summary)"
    using sum_cases [of "compile_update_config fs"] by (metis surj_pair)
  from compile_InrD [OF c m] d show False by auto
qed

lemma read_json_list_Inr:
  "read_json_list fs path = Inr xs \<longleftrightarrow> fs path = Some (Content (JList xs))"
proof (cases "fs path")
  case None
  then show ?thesis by (simp add: read_json_list_def)
next
  case (Some f)
  then show ?thesis
    by (cases f) (auto simp: read_json_list_def split: json.splits)
qed

text \<open>
  C4, as the code has it. With the manifest read and a \<^verbatim>\<open>donors_file\<close> whose trimmed
  text is not empty: when the file is there and holds a JSON array, the array is the
  donor list (and a file that is there and holds anything else fails the run); when
  the file is not there and the name is the literal \<^verbatim>\<open>donors.json\<close>, the donor list is
  empty and nothing is raised; when the file is not there under any other name, the run
  fails with the "donors_file not found" error.
\<close>

theorem donors_loading_named:
  assumes m: "fs ''manifest.json'' = Some (Content (JObj manifest))"
    and ne: "donors_file_of manifest \<noteq> []"
  shows "(fs (donors_file_of manifest) = Some (Content (JList xs)) \<longrightarrow>
            load_donors fs manifest = Inr xs \<and>
            (\<forall>merged summary. compile_update_config fs = Inr (merged, summary) \<longrightarrow>
               map_of merged ''donors'' = Some (JList xs)))
       \<and> (fs (donors_file_of manifest) = Some f \<and> (\<forall>ys. f \<noteq> Content (JList ys)) \<longrightarrow>
            (\<exists>e. load_donors fs manifest = Inl e) \<and> (\<exists>e. compile_update_config fs = Inl e))
       \<and> (fs (donors_file_of manifest) = None \<and> donors_file_of manifest = ''donors.json'' \<longrightarrow>
            load_donors fs manifest = Inr [] \<and>
            (\<forall>merged summary. compile_update_config fs = Inr (merged, summary) \<longrightarrow>
               map_of merged ''donors'' = Some (JList [])))
       \<and> (fs (donors_file_of manifest) = None \<and> donors_file_of manifest \<noteq> ''donors.json'' \<longrightarrow>
            load_donors fs manifest
              = Inl (ConfigError (DonorsFileNotFound (donors_file_of manifest))) \<and>
            (\<exists>e. compile_update_config fs = Inl e))"
proof (intro conjI impI allI)
  assume h: "fs (donors_file_of manifest) = Some (Content (JList xs))"
  then show l: "load_donors fs manifest = Inr xs"
    using ne by (simp add: load_donors_def Let_def read_json_list_Inr)
  fix merged summary
  assume "compile_update_config fs = Inr (merged, summary)"
  from compile_Inr_donors [OF this m] l
  show "map_of merged ''donors'' = Some (JList xs)" by auto
next
  assume h: "fs (donors_file_of manifest) = Some f \<and> (\<forall>ys. f \<noteq> Content (JList ys))"
  have "\<forall>ys. load_donors fs manifest \<noteq> Inr ys"
    using h ne by (auto simp: load_donors_def Let_def read_json_list_Inr)
  then show e: "\<exists>e. load_donors fs manifest = Inl e"
    using sum_cases [of "load_donors fs manifest"] by blast
  then show "\<exists>e. compile_update_config fs = Inl e"
    using load_donors_failure_fails_compile [of fs manifest] m by blast
next
  assume h: "fs (donors_file_of manifest) = None \<and> donors_file_of manifest = ''donors.json''"
  then have "fs ''donors.json'' = None" by auto
  with h show l: "load_donors fs manifest = Inr []"
    by (simp add: load_donors_def Let_def)
  fix merged summary
  assume "compile_update_config fs = Inr (merged, summary)"
  from compile_Inr_donors [OF this m] l
  show "map_of merged ''donors'' = Some (JList [])" by auto
next
  assume h: "fs (donors_file_of manifest) = None \<and> donors_file_of manifest \<noteq> ''donors.json''"
  then show l: "load_donors fs manifest
              = Inl (ConfigError (DonorsFileNotFound (donors_file_of manifest)))"
    using ne by (simp add: load_donors_def Let_def)
  then show "\<exists>e. compile_update_config fs = Inl e"
    using load_donors_failure_fails_compile [of fs manifest] m by blast
qed

theorem donors_loading_named_witness:
  "load_donors fs_donors manifest_example = Inr [JStr ''ann'', JStr ''bob'']
   \<and> load_donors fs_example manifest_example = Inr []
   \<and> load_donors fs_custom manifest_custom = Inl (ConfigError (DonorsFileNotFound ''custom.json''))
   \<and> (\<exists>e. compile_update_config fs_custom = Inl e)"
proof -
  have m1: "fs_donors ''manifest.json'' = Some (Content (JObj manifest_example))"
    by code_simp
  have n1: "donors_file_of manifest_example \<noteq> []"
    by code_simp
  have f1: "fs_donors (donors_file_of manifest_example)
              = Some (Content (JList [JStr ''ann'', JStr ''bob'']))"
    by code_simp
  from donors_loading_named
         [where fs = fs_donors and manifest = manifest_example
            and xs = "[JStr ''ann'', JStr ''bob'']", OF m1 n1] f1
  have 1: "load_donors fs_donors manifest_example = Inr [JStr ''ann'', JStr ''bob'']"
    by blast
  have m2: "fs_example ''manifest.json'' = Some (Content (JObj manifest_example))"
    by code_simp
  have f2: "fs_example (donors_file_of manifest_example) = None
            \<and> donors_file_of manifest_example = ''donors.json''"
    by code_simp
  from donors_loading_named [where fs = fs_example and manifest = manifest_example, OF m2 n1] f2
  have 2: "load_donors fs_example manifest_example = Inr []"
    by blast
  have m3: "fs_custom ''manifest.json'' = Some (Content (JObj manifest_custom))"
    by code_simp
  have n3: "donors_file_of manifest_custom \<noteq> []"
    by code_simp
  have d3: "donors_file_of manifest_custom = ''custom.json''"
    by code_simp
  have f3: "fs_custom (donors_file_of manifest_custom) = None
            \<and> donors_file_of manifest_custom \<noteq> ''donors.json''"
    by code_simp
  from donors_loading_named [where fs = fs_custom and manifest = manifest_custom, OF m3 n3] f3
  have 3: "load_donors fs_custom manifest_custom
             = Inl (ConfigError (DonorsFileNotFound (donors_file_of manifest_custom)))
           \<and> (\<exists>e. compile_update_config fs_custom = Inl e)"
    by blast
  from 1 2 3 d3 show ?thesis by simp
qed

text \<open>
  C4, as it is stated, fails for a \<^verbatim>\<open>donors_file\<close> that is blank. The configured name
  is not \<^verbatim>\<open>donors.json\<close>; held to name nothing, it is absent, and the run returns
  all the same; held to name the root directory, it is there, and the run returns an
  empty donor list without reading it.
\<close>

theorem blank_donors_file_counterexample:
  "donors_file_of manifest_blank = [] \<and> donors_file_of manifest_blank \<noteq> ''donors.json''
   \<and> fs_blank ''manifest.json'' = Some (Content (JObj manifest_blank))
   \<and> fs_blank (donors_file_of manifest_blank) = None
   \<and> \<not> isl (compile_update_config fs_blank)
   \<and> fs_blank_root ''manifest.json'' = Some (Content (JObj manifest_blank))
   \<and> fs_blank_root (donors_file_of manifest_blank) = Some Unreadable
   \<and> \<not> isl (compile_update_config fs_blank_root)
   \<and> map_of (fst (projr (compile_update_config fs_blank_root))) ''donors'' = Some (JList [])"
  by code_simp

text \<open>
  C10. When the manifest's \<^verbatim>\<open>donors_file\<close>, converted with \<^verbatim>\<open>str\<close> and trimmed, is
  empty, the donor stage returns the empty list whatever the files are; every run
  that returns has \<^verbatim>\<open>donors\<close> equal to the empty list; and a run whose id list, latest
  id and announcements pass their checks does return.
\<close>

theorem blank_donors_file_skips_loading:
  assumes m: "fs ''manifest.json'' = Some (Content (JObj manifest))"
    and b: "donors_file_of manifest = []"
  shows "(\<forall>fs'. load_donors fs' manifest = Inr [])
       \<and> (\<forall>merged summary. compile_update_config fs = Inr (merged, summary) \<longrightarrow>
             map_of merged ''donors'' = Some (JList []))
       \<and> (check_announcement_ids manifest = Inr ids \<and>
          check_latest_announcement_id manifest ids = Inr latest \<and>
          load_announcements fs ids = Inr anns \<longrightarrow>
            (\<exists>merged summary. compile_update_config fs = Inr (merged, summary) \<and>
               map_of merged ''donors'' = Some (JList [])))"
proof (intro conjI impI allI)
  fix fs' :: fs
  show "load_donors fs' manifest = Inr []"
    using b by (simp add: load_donors_def)
next
  fix merged summary
  assume "compile_update_config fs = Inr (merged, summary)"
  from compile_Inr_donors [OF this m] b
  show "map_of merged ''donors'' = Some (JList [])"
    by (auto simp: load_donors_def)
next
  assume h: "check_announcement_ids manifest = Inr ids \<and>
          check_latest_announcement_id manifest ids = Inr latest \<and>
          load_announcements fs ids = Inr anns"
  have d: "load_donors fs manifest = Inr []"
    using b by (simp add: load_donors_def)
  from compile_succeeds [of fs manifest ids latest anns "[]"] m h d
  obtain active rn where
    "compile_update_config fs =
       Inr (assemble manifest (announcement_of latest active) [] rn,
            summary_of ids latest rn [])"
    by blast
  then show "\<exists>merged summary. compile_update_config fs = Inr (merged, summary) \<and>
               map_of merged ''donors'' = Some (JList [])"
    using assemble_donors by blast
qed

theorem blank_donors_file_skips_loading_witness:
  "donors_file_of manifest_blank = []
   \<and> load_donors fs_blank_root manifest_blank = Inr []
   \<and> (\<exists>merged summary. compile_update_config fs_blank_root = Inr (merged, summary) \<and>
         map_of merged ''donors'' = Some (JList []))"
proof -
  have m: "fs_blank_root ''manifest.json'' = Some (Content (JObj manifest_blank))"
    by code_simp
  have b: "donors_file_of manifest_blank = []"
    by code_simp
  have i: "check_announcement_ids manifest_blank = Inr [''1'', ''2'']"
    by code_simp
  have l: "check_latest_announcement_id manifest_blank [''1'', ''2''] = Inr ''2''"
    by code_simp
  have a: "load_announcements fs_blank_root [''1'', ''2'']
             = Inr [(''1'', announcement_1), (''2'', announcement_2)]"
    by code_simp
  from blank_donors_file_skips_loading
         [where fs = fs_blank_root and manifest = manifest_blank and ids = "[''1'', ''2'']"
            and latest = "''2''" and anns = "[(''1'', announcement_1), (''2'', announcement_2)]",
          OF m b] i l a b
  show ?thesis by blast
qed

text \<open>
  C9. For a run that returns: the \<^verbatim>\<open>id\<close> of the merged \<^verbatim>\<open>announcement\<close> is the
  manifest's \<^verbatim>\<open>latest_announcement_id\<close>, normalized; and \<^verbatim>\<open>donors\<close> is the array
  held by the donors file when the configured name is not blank and the file is there,
  and the empty list when nothing was loaded (the default-named file is absent, or the
  configured name is blank).
\<close>

theorem merged_announcement_and_donors:
  assumes c: "compile_update_config fs = Inr (merged, summary)"
    and m: "fs ''manifest.json'' = Some (Content (JObj manifest))"
  shows "(\<exists>latest a.
            normalize_id (get_default manifest ''latest_announcement_id'' JNull) latest_loc
              = Inr latest \<and>
            map_of merged ''announcement'' = Some (JObj a) \<and>
            map_of a ''id'' = Some (JStr latest))
       \<and> ((donors_file_of manifest \<noteq> [] \<and>
            (\<exists>xs. fs (donors_file_of manifest) = Some (Content (JList xs)) \<and>
                  map_of merged ''donors'' = Some (JList xs)))
          \<or> ((donors_file_of manifest = [] \<or>
               (donors_file_of manifest = ''donors.json'' \<and> fs ''donors.json'' = None)) \<and>
              map_of merged ''donors'' = Some (JList [])))"
proof -
  from compile_InrD [OF c m] obtain ids latest anns donors active rn where
    l: "check_latest_announcement_id manifest ids = Inr latest"
    and d: "load_donors fs manifest = Inr donors"
    and mg: "merged = assemble manifest (announcement_of latest active) donors rn"
    by blast
  from l have n: "normalize_id (get_default manifest ''latest_announcement_id'' JNull) latest_loc
              = Inr latest"
    by (simp add: check_latest_Inr)
  have a: "map_of merged ''announcement'' = Some (JObj (announcement_of latest active))"
    using mg assemble_announcement by simp
  have i: "map_of (announcement_of latest active) ''id'' = Some (JStr latest)"
    by (simp add: announcement_of_def)
  have md: "map_of merged ''donors'' = Some (JList donors)"
    using mg assemble_donors by simp
  have "(donors_file_of manifest \<noteq> [] \<and>
            fs (donors_file_of manifest) = Some (Content (JList donors)))
          \<or> ((donors_file_of manifest = [] \<or>
               (donors_file_of manifest = ''donors.json'' \<and> fs ''donors.json'' = None)) \<and>
              donors = [])"
    using d by (auto simp: load_donors_def Let_def read_json_list_Inr split: if_splits)
  with n a i md show ?thesis by blast
qed

theorem merged_announcement_and_donors_witness:
  "\<exists>merged summary a.
     compile_update_config fs_donors = Inr (merged, summary) \<and>
     map_of merged ''announcement'' = Some (JObj a) \<and> map_of a ''id'' = Some (JStr ''2'') \<and>
     map_of merged ''donors'' = Some (JList [JStr ''ann'', JStr ''bob''])"
proof -
  have m: "fs_donors ''manifest.json'' = Some (Content (JObj manifest_example))"
    by code_simp
  have n: "normalize_id (get_default manifest_example ''latest_announcement_id'' JNull) latest_loc
             = Inr ''2''"
    by code_simp
  have df: "donors_file_of manifest_example = ''donors.json''"
    by code_simp
  have f: "fs_donors ''donors.json'' = Some (Content (JList [JStr ''ann'', JStr ''bob'']))"
    by code_simp
  have "\<not> isl (compile_update_config fs_donors)"
    by code_simp
  then obtain merged summary where c: "compile_update_config fs_donors = Inr (merged, summary)"
    by (metis isl_def sum_cases surj_pair)
  from merged_announcement_and_donors [OF c m] n f df
  have "\<exists>a. map_of merged ''announcement'' = Some (JObj a) \<and> map_of a ''id'' = Some (JStr ''2'')"
    and "map_of merged ''donors'' = Some (JList [JStr ''ann'', JStr ''bob''])"
    by auto
  with c show ?thesis by blast
qed

section \<open>The merged document\<close>

lemma filter_update_other:
  "(\<And>v. \<not> P (k, v)) \<Longrightarrow> filter P (AList.update k v al) = filter P al"
  by (induction al) auto

lemma strip_internal_keys_filter:
  "strip_internal_keys manifest = filter (\<lambda>kv. fst kv \<notin> internal_keys) manifest"
  by (induction manifest) (auto simp: strip_internal_keys_def internal_keys_def)

lemma map_of_strip_internal_keys:
  "map_of (strip_internal_keys manifest) k = (if k \<in> internal_keys then None else map_of manifest k)"
  by (auto simp: strip_internal_keys_def internal_keys_def delete_conv')

lemma map_of_assemble:
  "map_of (assemble manifest a donors rn) k =
     (if k = ''release_notes'' then Some (JList rn)
      else if k = ''donors'' then Some (JList donors)
      else if k = ''announcement'' then Some (JObj a)
      else if k \<in> internal_keys then None
      else map_of manifest k)"
  by (simp add: assemble_def update_conv' map_of_strip_internal_keys)

lemma keys_assemble:
  "fst ` set (assemble manifest a donors rn) = (fst ` set manifest - internal_keys) \<union> injected_keys"
proof -
  have "fst ` set (assemble manifest a donors rn) = dom (map_of (assemble manifest a donors rn))"
    by (simp add: dom_map_of_conv_image_fst)
  also have "\<dots> = (dom (map_of manifest) - internal_keys) \<union> injected_keys"
    by (auto simp: map_of_assemble injected_keys_def internal_keys_def dom_def split: if_splits)
  finally show ?thesis by (simp add: dom_map_of_conv_image_fst)
qed

lemma order_assemble:
  "filter (\<lambda>kv. fst kv \<notin> injected_keys) (assemble manifest a donors rn) =
     filter (\<lambda>kv. fst kv \<notin> internal_keys \<union> injected_keys) manifest"
proof -
  have "filter (\<lambda>kv. fst kv \<notin> injected_keys) (assemble manifest a donors rn) =
          filter (\<lambda>kv. fst kv \<notin> injected_keys) (strip_internal_keys manifest)"
    by (simp add: assemble_def filter_update_other injected_keys_def)
  then show ?thesis
    by (simp add: strip_internal_keys_filter conj_commute)
qed

text \<open>
  C3. For a run that returns, with the manifest it read: none of
  \<^verbatim>\<open>announcement_ids\<close>, \<^verbatim>\<open>latest_announcement_id\<close>, \<^verbatim>\<open>donors_file\<close> and
  \<^verbatim>\<open>announcement_tag_index\<close> is a key of the merged document; \<^verbatim>\<open>announcement\<close>,
  \<^verbatim>\<open>donors\<close> and \<^verbatim>\<open>release_notes\<close> are; every other key has the value it has in
  the manifest; the keys are those of the manifest without the four and with the three;
  and, the three set aside, the fields are those of the manifest without the four, in
  the manifest's order.
\<close>

theorem merged_document_frame:
  assumes c: "compile_update_config fs = Inr (merged, summary)"
    and m: "fs ''manifest.json'' = Some (Content (JObj manifest))"
  shows "(\<forall>k \<in> internal_keys. map_of merged k = None)
       \<and> (\<forall>k \<in> injected_keys. map_of merged k \<noteq> None)
       \<and> (\<forall>k. k \<notin> internal_keys \<union> injected_keys \<longrightarrow> map_of merged k = map_of manifest k)
       \<and> fst ` set merged = (fst ` set manifest - internal_keys) \<union> injected_keys
       \<and> filter (\<lambda>kv. fst kv \<notin> injected_keys) merged
           = filter (\<lambda>kv. fst kv \<notin> internal_keys \<union> injected_keys) manifest"
proof -
  from compile_InrD [OF c m] obtain a donors rn where
    mg: "merged = assemble manifest a donors rn" by blast
  have 1: "\<forall>k \<in> internal_keys. map_of merged k = None"
    unfolding mg by (auto simp: map_of_assemble internal_keys_def)
  have 2: "\<forall>k \<in> injected_keys. map_of merged k \<noteq> None"
    unfolding mg by (auto simp: map_of_assemble injected_keys_def)
  have 3: "\<forall>k. k \<notin> internal_keys \<union> injected_keys \<longrightarrow> map_of merged k = map_of manifest k"
    unfolding mg by (auto simp: map_of_assemble injected_keys_def)
  from 1 2 3 keys_assemble order_assemble show ?thesis
    unfolding mg by blast
qed

theorem merged_document_frame_witness:
  "\<exists>merged summary.
     compile_update_config fs_full = Inr (merged, summary) \<and>
     map_of merged ''donors_file'' = None \<and>
     map_of merged ''announcement_tag_index'' = None \<and>
     map_of merged ''release_notes'' \<noteq> None \<and>
     map_of merged ''notice_enabled'' = Some (JBool False) \<and>
     map_of merged ''schema_version'' = Some (JInt 1)"
proof -
  have m: "fs_full ''manifest.json'' = Some (Content (JObj manifest_full))"
    by code_simp
  have "\<not> isl (compile_update_config fs_full)"
    by code_simp
  then obtain merged summary where c: "compile_update_config fs_full = Inr (merged, summary)"
    by (metis isl_def sum_cases surj_pair)
  have i: "''donors_file'' \<in> internal_keys" "''announcement_tag_index'' \<in> internal_keys"
    by (simp_all add: internal_keys_def)
  have j: "''release_notes'' \<in> injected_keys"
    by (simp add: injected_keys_def)
  have o: "''notice_enabled'' \<notin> internal_keys \<union> injected_keys"
    "''schema_version'' \<notin> internal_keys \<union> injected_keys"
    by (simp_all add: internal_keys_def injected_keys_def)
  have v: "map_of manifest_full ''notice_enabled'' = Some (JBool False)"
    "map_of manifest_full ''schema_version'' = Some (JInt 1)"
    by code_simp+
  from merged_document_frame [OF c m] i j o v
  have "map_of merged ''donors_file'' = None \<and>
     map_of merged ''announcement_tag_index'' = None \<and>
     map_of merged ''release_notes'' \<noteq> None \<and>
     map_of merged ''notice_enabled'' = Some (JBool False) \<and>
     map_of merged ''schema_version'' = Some (JInt 1)"
    by metis
  with c show ?thesis by blast
qed

section \<open>Release notes: which are built, and in what order\<close>

lemma item_remains_JObj:
  "item_remains (JObj d) \<longleftrightarrow>
     \<not> (strip (str (get_default d ''category'' (JStr ''''))) = [] \<and>
        \<not> truthy (normalize_contents (get_default d ''contents'' JNull)))"
  by (auto simp: item_remains_def item_category_def item_contents_def)

lemma normalized_item_JObj:
  "normalized_item (JObj d) =
     JObj [(''category'', JStr (strip (str (get_default d ''category'' (JStr ''''))))),
           (''contents'', normalize_contents (get_default d ''contents'' JNull))]"
  by (simp add: normalized_item_def item_category_def item_contents_def)

lemma item_remains_other:
  "\<forall>d. item \<noteq> JObj d \<Longrightarrow> \<not> item_remains item"
  by (cases item) (auto simp: item_remains_def)

lemma normalize_items_eq:
  "normalize_items items acc = acc @ map normalized_item (filter item_remains items)"
proof (induction items arbitrary: acc)
  case Nil
  then show ?case by simp
next
  case (Cons item items)
  show ?case
  proof (cases "\<exists>d. item = JObj d")
    case True
    then obtain d where d: "item = JObj d" by blast
    show ?thesis
      unfolding d
      by (simp add: Let_def Cons.IH item_remains_JObj normalized_item_JObj)
  next
    case False
    then have "\<not> item_remains item" by (simp add: item_remains_other)
    with False show ?thesis
      by (cases item) (simp_all add: Cons.IH)
  qed
qed


lemma build_release_note_Some:
  "build_release_note entry = Some note \<Longrightarrow>
     note = [(''version'', JStr (note_version entry)),
             (''date'', JStr (strip (str (get_default entry ''date'' (JStr ''''))))),
             (''items'', JList (map normalized_item (filter item_remains (entry_items entry))))]"
  by (auto simp: build_release_note_def Let_def note_version_def entry_items_def
        normalize_items_eq split: if_splits)





section \<open>Overrides: the tag version and the explicit version\<close>

lemma get_platform_update:
  "get_platform (AList.update n (JObj p) vi) n' = (if n' = n then Some p else get_platform vi n')"
  by (simp add: get_platform_def update_conv')

lemma get_platform_set_item:
  "get_platform (set_item vi n k t) n' =
     (if n' = n then map_option (AList.update k (JStr t)) (get_platform vi n)
      else get_platform vi n')"
  by (cases "get_platform vi n") (auto simp: set_item_def get_platform_update)

lemma get_platform_set_nonempty:
  "get_platform (set_nonempty vi n k v) n' =
     (if n' = n \<and> strip v \<noteq> [] then map_option (AList.update k (JStr (strip v))) (get_platform vi n)
      else get_platform vi n')"
  by (cases "get_platform vi n") (auto simp: set_nonempty_def Let_def get_platform_set_item)

lemma get_platform_set_tag:
  "get_platform (set_tag vi n url version t) n' =
     (if n' = n \<and> strip url \<noteq> [] \<and> strip version = []
      then map_option (AList.update ''latest_version'' (JStr t)) (get_platform vi n)
      else get_platform vi n')"
  by (cases "get_platform vi n") (auto simp: set_tag_def get_platform_set_item)

lemma platform_of_apply_overrides:
  assumes "map_of merged ''version_info'' = Some (JObj vi)"
  shows "platform_of (apply_overrides merged ov) name =
     (let url = map_option (\<lambda>p. if strip (url_override ov name) \<noteq> []
                                 then AList.update ''url'' (JStr (strip (url_override ov name))) p
                                 else p);
          ver = map_option (\<lambda>p. if strip (version_override ov name) \<noteq> []
                                 then AList.update ''latest_version''
                                        (JStr (strip (version_override ov name))) p
                                 else p);
          tag = map_option (\<lambda>p. if strip (tag_version ov) \<noteq> [] \<and>
                                    strip (url_override ov name) \<noteq> [] \<and>
                                    strip (version_override ov name) = []
                                 then AList.update ''latest_version''
                                        (JStr (strip (tag_version ov))) p
                                 else p)
      in if name \<in> platforms then tag (ver (url (get_platform vi name)))
         else get_platform vi name)"
  using assms
  by (cases "get_platform vi name")
     (auto simp: apply_overrides_def platform_of_def update_conv' Let_def platforms_def
        url_override_def version_override_def
        get_platform_set_nonempty get_platform_set_tag)

lemma platform_of_SomeD:
  assumes "platform_of merged name = Some p"
  shows "\<exists>vi. map_of merged ''version_info'' = Some (JObj vi) \<and> get_platform vi name = Some p"
  using assms by (auto simp: platform_of_def split: option.splits json.splits)

text \<open>
  C5. For a platform that \<^verbatim>\<open>_apply_overrides\<close> knows and that the merged document
  has as an object under \<^verbatim>\<open>version_info\<close>, the platform is still an object
  afterwards, and its \<^verbatim>\<open>latest_version\<close> is: the trimmed version override when that
  is not empty, whatever the tag version is; the trimmed tag version when the version
  override is empty after trimming and the URL override and the tag version are not; and
  what it was before in every other case.
\<close>

theorem tag_version_defaults_latest_version:
  assumes "name \<in> platforms" and "platform_of merged name = Some p"
  shows "\<exists>p'. platform_of (apply_overrides merged ov) name = Some p' \<and>
     (strip (version_override ov name) \<noteq> [] \<longrightarrow>
        map_of p' ''latest_version'' = Some (JStr (strip (version_override ov name))))
   \<and> (strip (url_override ov name) \<noteq> [] \<and> strip (version_override ov name) = [] \<and>
      strip (tag_version ov) \<noteq> [] \<longrightarrow>
        map_of p' ''latest_version'' = Some (JStr (strip (tag_version ov))))
   \<and> (strip (version_override ov name) = [] \<and>
      (strip (url_override ov name) = [] \<or> strip (tag_version ov) = []) \<longrightarrow>
        map_of p' ''latest_version'' = map_of p ''latest_version'')"
proof -
  from platform_of_SomeD [OF assms(2)] obtain vi where
    vi: "map_of merged ''version_info'' = Some (JObj vi)" and p: "get_platform vi name = Some p"
    by blast
  show ?thesis
    unfolding platform_of_apply_overrides [OF vi]
    using assms(1) p
    by (auto simp: Let_def update_conv')
qed

theorem tag_version_defaults_latest_version_witness:
  "(\<exists>p'. platform_of (apply_overrides manifest_example overrides_url) ''android'' = Some p' \<and>
         map_of p' ''latest_version'' = Some (JStr ''1.2.3''))
   \<and> (\<exists>p'. platform_of (apply_overrides manifest_example overrides_url_version) ''android''
             = Some p' \<and>
         map_of p' ''latest_version'' = Some (JStr ''9.9.9''))"
proof -
  have n: "''android'' \<in> platforms"
    by (simp add: platforms_def)
  have p: "platform_of manifest_example ''android''
             = Some [(''url'', JStr ''https://old''), (''latest_version'', JStr ''1.0'')]"
    by code_simp
  have u: "strip (url_override overrides_url ''android'') \<noteq> []"
    "strip (version_override overrides_url ''android'') = []"
    "strip (tag_version overrides_url) = ''1.2.3''"
    by code_simp+
  have v: "strip (version_override overrides_url_version ''android'') = ''9.9.9''"
    by code_simp
  from tag_version_defaults_latest_version [OF n p, of overrides_url] u
  have 1: "\<exists>p'. platform_of (apply_overrides manifest_example overrides_url) ''android'' = Some p' \<and>
         map_of p' ''latest_version'' = Some (JStr ''1.2.3'')"
    by auto
  from tag_version_defaults_latest_version [OF n p, of overrides_url_version] v
  have 2: "\<exists>p'. platform_of (apply_overrides manifest_example overrides_url_version) ''android''
             = Some p' \<and>
         map_of p' ''latest_version'' = Some (JStr ''9.9.9'')"
    by auto
  from 1 2 show ?thesis by simp
qed

end
